theory Spec2Isabelle
  imports Complex_Main "HOL-Library.Multiset" "HOL-Library.Sublist" "HOL-Library.List_Lexorder"
begin

chapter \<open>The planner scripts as functions\<close>

section \<open>JavaScript values used by the planner scripts\<close>

text \<open>
  The scripts are plain Node.js. Strings are modelled as \<open>string\<close>, integer-valued
  Numbers as \<open>nat\<close> or \<open>int\<close> (all of them stay far below \<open>2^53\<close>, where the
  arithmetic of doubles is exact), distances as \<open>real\<close>. A Number that may be
  \<open>NaN\<close> after parsing is an \<open>option\<close>, \<open>None\<close> being \<open>NaN\<close>; every
  comparison with \<open>NaN\<close> is false, as in JavaScript.
\<close>

subsection \<open>\<open>String.prototype.split\<close> on a one-character separator\<close>

fun split_on :: "char \<Rightarrow> string \<Rightarrow> string list" where
  "split_on c [] = [[]]"
| "split_on c (x # xs) =
     (if x = c then [] # split_on c xs
      else (case split_on c xs of
              [] \<Rightarrow> [[x]]
            | p # ps \<Rightarrow> (x # p) # ps))"

subsection \<open>\<open>Number(str)\<close> and \<open>String(n).padStart(2, '0')\<close>\<close>

definition is_digit :: "char \<Rightarrow> bool" where
  "is_digit c = (48 \<le> (of_char c :: nat) \<and> (of_char c :: nat) \<le> 57)"

definition digit_val :: "char \<Rightarrow> nat" where
  "digit_val c = of_char c - 48"

definition digit_char :: "nat \<Rightarrow> char" where
  "digit_char n = ''0123456789'' ! (n mod 10)"

text \<open>
  \<open>Number\<close> of a string of decimal digits is its value, and \<open>Number('')\<close> is 0.
  Every other string is answered \<open>NaN\<close> here. (JavaScript also reads signs,
  fractions, exponents, hexadecimal literals and surrounding blanks; no field of a GTFS
  time has them.)
\<close>

definition Number_js :: "string \<Rightarrow> nat option" where
  "Number_js s =
     (if list_all is_digit s then Some (foldl (\<lambda>a c. 10 * a + digit_val c) 0 s)
      else None)"

text \<open>
  Array destructuring \<open>const [h, m, s] = parts.map(Number)\<close>: a missing element is
  \<open>undefined\<close>, which every later arithmetic turns into \<open>NaN\<close>.
\<close>

definition num_at :: "string list \<Rightarrow> nat \<Rightarrow> nat option" where
  "num_at parts i = (if i < length parts then Number_js (parts ! i) else None)"

function show_nat :: "nat \<Rightarrow> string" where
  "show_nat n =
     (if n < 10 then [digit_char n] else show_nat (n div 10) @ [digit_char (n mod 10)])"
  by pat_completeness auto
termination
  by (relation "measure id") auto

declare show_nat.simps [simp del]

definition padStart2 :: "nat option \<Rightarrow> string" where
  "padStart2 v =
     (case v of
        None \<Rightarrow> ''NaN''
      | Some n \<Rightarrow> replicate (2 - length (show_nat n)) (CHR ''0'') @ show_nat n)"

subsection \<open>Comparison of Numbers that may be \<open>NaN\<close>\<close>

definition num_lt :: "nat option \<Rightarrow> nat option \<Rightarrow> bool" where
  "num_lt a b = (case (a, b) of (Some x, Some y) \<Rightarrow> x < y | _ \<Rightarrow> False)"

section \<open>Times of day: \<open>find_transit_bfs.js\<close>\<close>

text \<open>
  GTFS times are the strings of \<open>stop_times.txt\<close>, \<open>HH:MM:SS\<close>. The three helpers
  below are the same in \<open>find_transit_bfs.js\<close> and \<open>find_transit_combined.js\<close>.
\<close>

definition TRANSFER_TIME_MINUTES :: nat where
  "TRANSFER_TIME_MINUTES = 5"

definition addMinutesToTime :: "string \<Rightarrow> nat \<Rightarrow> string" where
  "addMinutesToTime timeStr minutes =
     (let parts = split_on (CHR '':'') timeStr;
          h = num_at parts 0;
          m = num_at parts 1;
          s = num_at parts 2;
          totalMinutes =
            (case (h, m) of
               (Some hv, Some mv) \<Rightarrow> Some (hv * 60 + mv + minutes)
             | _ \<Rightarrow> None);
          newH = map_option (\<lambda>t. (t div 60) mod 24) totalMinutes;
          newM = map_option (\<lambda>t. t mod 60) totalMinutes
      in padStart2 newH @ '':'' @ padStart2 newM @ '':'' @ padStart2 s)"

definition total_seconds :: "string \<Rightarrow> nat option" where
  "total_seconds t =
     (let parts = split_on (CHR '':'') t
      in case (num_at parts 0, num_at parts 1, num_at parts 2) of
           (Some h, Some m, Some s) \<Rightarrow> Some (h * 3600 + m * 60 + s)
         | _ \<Rightarrow> None)"

definition compareTime :: "string \<Rightarrow> string \<Rightarrow> int" where
  "compareTime time1 time2 =
     (let total1 = total_seconds time1;
          total2 = total_seconds time2
      in if num_lt total1 total2 then - 1
         else if num_lt total2 total1 then 1
         else 0)"

definition minutes_of_day :: "string \<Rightarrow> int option" where
  "minutes_of_day t =
     (let parts = split_on (CHR '':'') t
      in case (num_at parts 0, num_at parts 1) of
           (Some h, Some m) \<Rightarrow> Some (int (h * 60 + m))
         | _ \<Rightarrow> None)"

definition timeDifferenceMinutes :: "string \<Rightarrow> string \<Rightarrow> int option" where
  "timeDifferenceMinutes time1 time2 =
     (case (minutes_of_day time1, minutes_of_day time2) of
        (Some a, Some b) \<Rightarrow> Some (b - a)
      | _ \<Rightarrow> None)"

text \<open>The well-formed time string \<open>HH:MM:SS\<close> with the given fields.\<close>

definition two_digits :: "nat \<Rightarrow> string" where
  "two_digits n = [digit_char (n div 10), digit_char (n mod 10)]"

definition time_string :: "nat \<Rightarrow> nat \<Rightarrow> nat \<Rightarrow> string" where
  "time_string hh mm ss = two_digits hh @ '':'' @ two_digits mm @ '':'' @ two_digits ss"

section \<open>Reading the feed: \<open>parseCSV\<close>, \<open>loadFile\<close>, \<open>preloadTransitData\<close>\<close>

text \<open>
  The three functions have the same text in \<open>find_next_transit.js\<close>,
  \<open>find_transit_bfs.js\<close> and \<open>find_transit_combined.js\<close>. A row of a table is the
  object \<open>parseCSV\<close> builds, a map from header to value; a field the row does not have
  reads as \<open>undefined\<close>, here \<open>None\<close>. The data directory is a map from file name
  to content, an absent file being \<open>None\<close>.
\<close>

type_synonym entry = "string \<rightharpoonup> string"

type_synonym data_dir = "string \<rightharpoonup> string"

definition is_space :: "char \<Rightarrow> bool" where
  "is_space c = ((of_char c :: nat) \<in> {9, 10, 11, 12, 13, 32})"

text \<open>\<open>String.prototype.trim\<close>, on the blanks of ASCII.\<close>

definition js_trim :: "string \<Rightarrow> string" where
  "js_trim s = rev (dropWhile is_space (rev (dropWhile is_space s)))"

text \<open>\<open>s.replace(/^"|"$/g, '')\<close>: one quote off the front, one off the end.\<close>

definition strip_quotes :: "string \<Rightarrow> string" where
  "strip_quotes s =
     (let s1 = (case s of [] \<Rightarrow> [] | c # cs \<Rightarrow> if c = CHR 0x22 then cs else s)
      in if s1 \<noteq> [] \<and> last s1 = CHR 0x22 then butlast s1 else s1)"

text \<open>The inner loop of \<open>parseCSV\<close> over the characters of one line.\<close>

fun scan_values :: "string \<Rightarrow> string \<Rightarrow> bool \<Rightarrow> string list" where
  "scan_values [] current inQuote = [current]"
| "scan_values (c # cs) current inQuote =
     (if c = CHR 0x22 then scan_values cs current (\<not> inQuote)
      else if c = CHR '','' \<and> \<not> inQuote then current # scan_values cs [] inQuote
      else scan_values cs (current @ [c]) inQuote)"

definition make_entry :: "string list \<Rightarrow> string list \<Rightarrow> entry" where
  "make_entry headers values =
     foldl (\<lambda>e (h, idx).
              e(h \<mapsto> (if idx < length values \<and> values ! idx \<noteq> []
                       then strip_quotes (values ! idx) else [])))
       Map.empty (zip headers [0 ..< length headers])"

definition parseCSV :: "string \<Rightarrow> entry list" where
  "parseCSV content =
     (case split_on (CHR 0x0A) (js_trim content) of
        [] \<Rightarrow> []
      | l0 # rest \<Rightarrow>
          (let headers = map (\<lambda>h. strip_quotes (js_trim h)) (split_on (CHR '','') l0)
           in map (\<lambda>line. make_entry headers (scan_values line [] False))
                (filter (\<lambda>line. line \<noteq> []) (map js_trim rest))))"

text \<open>
  \<open>loadFile\<close> returns the rows; what it writes with \<open>console.error\<close> is the first
  component of the result.
\<close>

definition loadFile :: "data_dir \<Rightarrow> string \<Rightarrow> string list \<times> entry list" where
  "loadFile dir filename =
     (case dir filename of
        None \<Rightarrow> ([''File not found: '' @ filename], [])
      | Some content \<Rightarrow> ([], parseCSV content))"

text \<open>
  \<open>parseInt(str, 10)\<close>: blanks, a sign, then the longest run of digits; \<open>NaN\<close> when
  there is no digit, also for \<open>undefined\<close>.
\<close>

definition parseInt10 :: "string option \<Rightarrow> int option" where
  "parseInt10 v =
     (case v of
        None \<Rightarrow> None
      | Some str \<Rightarrow>
          (let s = dropWhile is_space str;
               neg = (s \<noteq> [] \<and> hd s = CHR ''-'');
               body = (if s \<noteq> [] \<and> (hd s = CHR ''-'' \<or> hd s = CHR ''+'') then tl s else s);
               ds = takeWhile is_digit body;
               n = int (foldl (\<lambda>a c. 10 * a + digit_val c) 0 ds)
           in if ds = [] then None else Some (if neg then - n else n)))"

text \<open>
  A property key is a string: \<open>obj[undefined]\<close> is the property \<open>"undefined"\<close>. A
  \<open>Set\<close> keeps \<open>undefined\<close> as a value of its own.
\<close>

definition key_of :: "string option \<Rightarrow> string" where
  "key_of v = (case v of None \<Rightarrow> ''undefined'' | Some s \<Rightarrow> s)"

datatype js_error = ENOENT string | TypeError

text \<open>
  The object \<open>preloadTransitData\<close> returns: the valid trips, and the lines of
  \<open>stop_times.txt\<close> as they are in the file.
\<close>

record trip_tables =
  validTripIds :: "string option set"
  tripRouteMap :: "string \<rightharpoonup> entry"

record preloaded_files = trip_tables +
  stopTimeLines :: "string list"
  stHeaders :: "string list"
  routes :: "entry list"

text \<open>
  \<open>routeType\<close> is a string or \<open>null\<close>; \<open>!routeType\<close> holds for \<open>null\<close> and for
  the empty string. \<open>fs.readFileSync\<close> throws on an absent file. The result is what
  was written with \<open>console.error\<close>, and the error thrown or the object returned.
\<close>

definition route_matches :: "string option \<Rightarrow> entry \<Rightarrow> bool" where
  "route_matches routeType r =
     (routeType = None \<or> routeType = Some [] \<or> r ''route_type'' = routeType)"

definition service_active :: "string \<Rightarrow> int \<Rightarrow> entry \<Rightarrow> bool" where
  "service_active dayName todayDate c =
     (case (parseInt10 (c ''start_date''), parseInt10 (c ''end_date'')) of
        (Some startDate, Some endDate) \<Rightarrow>
          c dayName = Some ''1'' \<and> todayDate \<ge> startDate \<and> todayDate \<le> endDate
      | _ \<Rightarrow> False)"

definition preloadTransitData ::
  "data_dir \<Rightarrow> string \<Rightarrow> int \<Rightarrow> string option \<Rightarrow> string list \<times> (js_error + preloaded_files)" where
  "preloadTransitData dir dayName todayDate routeType =
     (let (log1, routes_rows) = loadFile dir ''routes.txt'';
          targetRouteIds = set (map (\<lambda>r. r ''route_id'') (filter (route_matches routeType) routes_rows));
          (log2, calendar) = loadFile dir ''calendar.txt'';
          activeServices =
            set (map (\<lambda>c. c ''service_id'') (filter (service_active dayName todayDate) calendar));
          (log3, allTrips) = loadFile dir ''trips.txt'';
          validTrips =
            filter (\<lambda>t. t ''route_id'' \<in> targetRouteIds \<and> t ''service_id'' \<in> activeServices) allTrips;
          tripIds = set (map (\<lambda>t. t ''trip_id'') validTrips);
          routeMap = foldl (\<lambda>m t. m(key_of (t ''trip_id'') \<mapsto> t)) Map.empty validTrips
      in (log1 @ log2 @ log3,
          case dir ''stop_times.txt'' of
            None \<Rightarrow> Inl (ENOENT ''stop_times.txt'')
          | Some rawStopTimes \<Rightarrow>
              (let lines = split_on (CHR 0x0A) (js_trim rawStopTimes);
                   headers = map (\<lambda>h. strip_quotes (js_trim h)) (split_on (CHR '','') (hd lines))
               in Inr \<lparr> validTripIds = tripIds, tripRouteMap = routeMap,
                         stopTimeLines = lines, stHeaders = headers, routes = routes_rows \<rparr>)))"

section \<open>Nearest stops: \<open>calculateDistance\<close>, \<open>findNearestStops\<close>\<close>

text \<open>
  A stop is a row of \<open>stops.txt\<close>. Its coordinates are kept as the numbers
  \<open>parseFloat\<close> reads from the two fields, \<open>None\<close> for an empty field, which is
  what the test \<open>stop.stop_lat && stop.stop_lon\<close> looks at. Distances are real numbers;
  the rounding of doubles is not modelled.
\<close>

record stop =
  stop_id :: string
  stop_name :: string
  stop_lat :: "real option"
  stop_lon :: "real option"

record stop_with_distance = stop +
  distance :: real

text \<open>\<open>Math.atan2(y, x)\<close>.\<close>

definition atan2 :: "real \<Rightarrow> real \<Rightarrow> real" where
  "atan2 y x =
     (if x > 0 then arctan (y / x)
      else if x < 0 then (if y \<ge> 0 then arctan (y / x) + pi else arctan (y / x) - pi)
      else if y > 0 then pi / 2
      else if y < 0 then - pi / 2
      else 0)"

definition calculateDistance :: "real \<Rightarrow> real \<Rightarrow> real \<Rightarrow> real \<Rightarrow> real" where
  "calculateDistance lat1 lng1 lat2 lng2 =
     (let R = 6371;
          dLat = (lat2 - lat1) * pi / 180;
          dLng = (lng2 - lng1) * pi / 180;
          a = sin (dLat / 2) * sin (dLat / 2) +
              cos (lat1 * pi / 180) * cos (lat2 * pi / 180) *
              sin (dLng / 2) * sin (dLng / 2);
          c = 2 * atan2 (sqrt a) (sqrt (1 - a))
      in R * c)"

definition has_coordinates :: "stop \<Rightarrow> bool" where
  "has_coordinates s = (stop_lat s \<noteq> None \<and> stop_lon s \<noteq> None)"

definition with_distance :: "real \<Rightarrow> real \<Rightarrow> stop \<Rightarrow> stop_with_distance" where
  "with_distance targetLat targetLng s =
     stop.extend s
       \<lparr> distance = calculateDistance targetLat targetLng (the (stop_lat s)) (the (stop_lon s)) \<rparr>"

text \<open>
  \<open>Array.prototype.sort\<close> is stable; with the comparator \<open>a.distance - b.distance\<close> it
  is the stable sort on the key \<open>distance\<close>. \<open>slice(0, maxResults)\<close> keeps the first
  \<open>maxResults\<close> elements.
\<close>

definition findNearestStops :: "stop list \<Rightarrow> real \<Rightarrow> real \<Rightarrow> nat \<Rightarrow> stop_with_distance list" where
  "findNearestStops stops targetLat targetLng maxResults =
     take maxResults
       (sort_key distance
          (map (with_distance targetLat targetLng) (filter has_coordinates stops)))"

text \<open>Strings compared by code unit, as \<open><\<close> on JavaScript strings does.\<close>

fun str_lt :: "string \<Rightarrow> string \<Rightarrow> bool" where
  "str_lt [] [] = False"
| "str_lt [] (y # ys) = True"
| "str_lt (x # xs) [] = False"
| "str_lt (x # xs) (y # ys) =
     ((of_char x :: nat) < of_char y \<or> (x = y \<and> str_lt xs ys))"

section \<open>Numbers that may be \<open>Infinity\<close>\<close>

text \<open>
  Distances and scores are finite or \<open>Infinity\<close>, and never \<open>NaN\<close> where this type
  is used. \<open>js_scale k\<close> is the product with a positive constant \<open>k\<close>.
\<close>

datatype jsnum = Num real | Infinity

fun js_lt :: "jsnum \<Rightarrow> jsnum \<Rightarrow> bool" where
  "js_lt (Num a) (Num b) = (a < b)"
| "js_lt (Num a) Infinity = True"
| "js_lt Infinity b = False"


fun js_scale :: "real \<Rightarrow> jsnum \<Rightarrow> jsnum" where
  "js_scale k (Num a) = Num (k * a)"
| "js_scale k Infinity = Infinity"

section \<open>The Connection Expander: \<open>getDirectConnections\<close>\<close>

text \<open>
  \<open>getDirectConnections\<close> has the same text in \<open>find_transit_bfs.js\<close> and
  \<open>find_transit_combined.js\<close>. Its first loop splits every line of
  \<open>stop_times.txt\<close> on \<open>","\<close> and reads five columns; it is
  \<open>tripStopMap_rows\<close> further down, which gives the rows below from the lines of the
  file. The second loop is the function \<open>getDirectConnections\<close> on these rows;
  \<open>validTripIds\<close> and \<open>tripRouteMap\<close> are the ones \<open>preloadTransitData\<close> builds.
\<close>

record stop_time =
  st_trip_id :: string
  st_stop_id :: string
  seq :: int
  arr :: string
  dep :: string

record preloadedData = trip_tables +
  stopTimes :: "stop_time list"

record connection =
  conn_stop_id :: string
  arrival_time :: string
  departure_time :: string
  conn_trip_id :: string
  conn_route_id :: "string option"
  conn_headsign :: "string option"

text \<open>
  The keys of an object as \<open>Object.entries\<close> lists them: first the keys that are
  array indices (canonical decimal numerals below \<open>2^32 - 1\<close>) in ascending numeric
  order, then the other keys in the order of their creation.
\<close>

fun first_occurrences :: "'a list \<Rightarrow> 'a list" where
  "first_occurrences [] = []"
| "first_occurrences (x # xs) = x # first_occurrences (filter (\<lambda>y. y \<noteq> x) xs)"

definition index_value :: "string \<Rightarrow> nat" where
  "index_value s = foldl (\<lambda>a c. 10 * a + digit_val c) 0 s"

definition is_array_index :: "string \<Rightarrow> bool" where
  "is_array_index s =
     (s \<noteq> [] \<and> list_all is_digit s \<and> (s = ''0'' \<or> hd s \<noteq> CHR ''0'')
      \<and> index_value s < 4294967295)"

definition own_keys :: "string list \<Rightarrow> string list" where
  "own_keys ks =
     (let created = first_occurrences ks
      in sort_key index_value (filter is_array_index created)
         @ filter (\<lambda>k. \<not> is_array_index k) created)"

text \<open>\<open>Array.prototype.findIndex\<close>, \<open>None\<close> for \<open>-1\<close>.\<close>

fun findIndex :: "('a \<Rightarrow> bool) \<Rightarrow> 'a list \<Rightarrow> nat option" where
  "findIndex P [] = None"
| "findIndex P (x # xs) = (if P x then Some 0 else map_option Suc (findIndex P xs))"

text \<open>
  The body of the second loop, for one trip and its stops sorted by sequence. The read
  \<open>tripRouteMap[tripId].route_id\<close> stands inside the innermost loop: it throws a
  \<open>TypeError\<close> when the trip has no entry and there is a stop to emit.
\<close>

definition trip_connections ::
  "string \<Rightarrow> string \<Rightarrow> preloadedData \<Rightarrow> string \<Rightarrow> stop_time list \<Rightarrow> js_error + connection list" where
  "trip_connections stopId afterTime preloaded tripId stops =
     (case findIndex (\<lambda>s. st_stop_id s = stopId) stops of
        None \<Rightarrow> Inr []
      | Some stopIndex \<Rightarrow>
          (let stopInfo = stops ! stopIndex
           in if compareTime (dep stopInfo) afterTime \<le> 0 then Inr []
              else if drop (Suc stopIndex) stops = [] then Inr []
              else (case tripRouteMap preloaded tripId of
                      None \<Rightarrow> Inl TypeError
                    | Some trip \<Rightarrow>
                        Inr (map (\<lambda>destStop.
                                   \<lparr> conn_stop_id = st_stop_id destStop,
                                     arrival_time = arr destStop,
                                     departure_time = dep stopInfo,
                                     conn_trip_id = tripId,
                                     conn_route_id = trip ''route_id'',
                                     conn_headsign = trip ''trip_headsign'' \<rparr>)
                              (drop (Suc stopIndex) stops)))))"

text \<open>Running the loop bodies in order; the first error ends the call.\<close>

fun collect :: "(js_error + 'a list) list \<Rightarrow> js_error + 'a list" where
  "collect [] = Inr []"
| "collect (r # rs) =
     (case r of
        Inl e \<Rightarrow> Inl e
      | Inr xs \<Rightarrow> (case collect rs of Inl e \<Rightarrow> Inl e | Inr ys \<Rightarrow> Inr (xs @ ys)))"

definition valid_rows :: "preloadedData \<Rightarrow> stop_time list" where
  "valid_rows preloaded =
     filter (\<lambda>r. Some (st_trip_id r) \<in> validTripIds preloaded) (stopTimes preloaded)"

definition trip_stops :: "preloadedData \<Rightarrow> string \<Rightarrow> stop_time list" where
  "trip_stops preloaded tripId =
     sort_key seq (filter (\<lambda>r. st_trip_id r = tripId) (valid_rows preloaded))"

definition getDirectConnections ::
  "string \<Rightarrow> string \<Rightarrow> preloadedData \<Rightarrow> js_error + connection list" where
  "getDirectConnections stopId afterTime preloaded =
     collect
       (map (\<lambda>tripId. trip_connections stopId afterTime preloaded tripId (trip_stops preloaded tripId))
          (own_keys (map st_trip_id (valid_rows preloaded))))"

section \<open>Best-first search: \<open>bfsSearch\<close>\<close>

text \<open>
  Two scripts have a \<open>bfsSearch\<close>: \<open>find_transit_bfs.js\<close> and
  \<open>find_transit_combined.js\<close>. They share the data below and differ in the loop
  body. A queue item is \<open>{ stop, time, path, numTransfers, distanceToTarget }\<close>, a
  found route \<open>{ path, finalStop, finalTime, numTransfers, distanceToDestination }\<close>.
\<close>

record leg =
  leg_from :: string
  leg_to :: string
  departure :: string
  arrival :: string
  trip_id :: string
  route_id :: "string option"
  headsign :: "string option"

record journey =
  path :: "leg list"
  numTransfers :: nat

record queue_item = journey +
  at_stop :: string
  at_time :: string
  distanceToTarget :: jsnum

record route = journey +
  finalStop :: string
  finalTime :: string
  distanceToDestination :: jsnum

record search_args =
  targetStops :: "string set"
  targetStopsList :: "stop_with_distance list"
  maxTransfers :: nat
  preloaded :: preloadedData

record frontier =
  queue :: "queue_item list"
  visited :: "(string \<times> nat) set"
  bestRoute :: "route option"

text \<open>
  What one pass of a loop body does: \<open>return\<close> from \<open>bfsSearch\<close>, throw, or go on
  with the next pass.
\<close>

datatype 's step = Return "route option" | Throw js_error | Continue 's

fun for_each :: "('c \<Rightarrow> 's \<Rightarrow> 's step) \<Rightarrow> 'c list \<Rightarrow> 's \<Rightarrow> 's step" where
  "for_each body [] s = Continue s"
| "for_each body (c # cs) s =
     (case body c s of
        Return r \<Rightarrow> Return r
      | Throw e \<Rightarrow> Throw e
      | Continue s' \<Rightarrow> for_each body cs s')"

text \<open>
  \<open>stopDistanceMap\<close> is filled from \<open>targetStopsList\<close> in order, a later stop of the
  same id replacing an earlier one.
\<close>

definition getMinDistanceToTarget :: "stop_with_distance list \<Rightarrow> string \<Rightarrow> jsnum" where
  "getMinDistanceToTarget stopsList stopId =
     (case map_of (rev (map (\<lambda>s. (stop_id s, distance s)) stopsList)) stopId of
        Some d \<Rightarrow> Num d
      | None \<Rightarrow> Infinity)"

definition is_transfer :: "leg list \<Rightarrow> connection \<Rightarrow> bool" where
  "is_transfer p conn =
     (p \<noteq> [] \<and> (route_id (last p) \<noteq> conn_route_id conn \<or> trip_id (last p) \<noteq> conn_trip_id conn))"

definition new_leg :: "queue_item \<Rightarrow> connection \<Rightarrow> leg" where
  "new_leg current conn =
     \<lparr> leg_from = at_stop current, leg_to = conn_stop_id conn,
       departure = departure_time conn, arrival = arrival_time conn,
       trip_id = conn_trip_id conn, route_id = conn_route_id conn,
       headsign = conn_headsign conn \<rparr>"

definition next_available_time :: "queue_item \<Rightarrow> string" where
  "next_available_time current =
     (if path current \<noteq> [] then addMinutesToTime (at_time current) TRANSFER_TIME_MINUTES
      else at_time current)"

definition best_has_transfers :: "route option \<Rightarrow> nat \<Rightarrow> bool" where
  "best_has_transfers best n = (case best of None \<Rightarrow> False | Some b \<Rightarrow> numTransfers b = n)"

subsection \<open>\<open>find_transit_bfs.js\<close>\<close>

definition MAX_ITERATIONS :: nat where
  "MAX_ITERATIONS = 20000"

record bfs_state = frontier +
  bestDistance :: jsnum

text \<open>The insertion loop at the end of the body: closer distance first, then fewer transfers.\<close>

fun insert_by_distance :: "queue_item \<Rightarrow> queue_item list \<Rightarrow> queue_item list" where
  "insert_by_distance item [] = [item]"
| "insert_by_distance item (q # qs) =
     (if js_lt (distanceToTarget item) (distanceToTarget q)
         \<or> (distanceToTarget item = distanceToTarget q \<and> numTransfers item < numTransfers q)
      then item # q # qs
      else q # insert_by_distance item qs)"

text \<open>
  A route that ends at a target stop: it replaces the best route when it is closer, and
  ends the search when it is closer than 0.35 km.
\<close>

definition reach_target :: "route \<Rightarrow> bfs_state \<Rightarrow> bfs_state step" where
  "reach_target r st =
     (let distance = distanceToDestination r;
          st' = (if js_lt distance (bestDistance st)
                 then st\<lparr> bestDistance := distance, bestRoute := Some r \<rparr>
                 else st)
      in if js_lt distance (Num 0.35) then Return (bestRoute st') else Continue st')"

definition visit_connection ::
  "search_args \<Rightarrow> queue_item \<Rightarrow> connection \<Rightarrow> bfs_state \<Rightarrow> bfs_state step" where
  "visit_connection args current conn st =
     (if compareTime (departure_time conn) (next_available_time current) < 0 then Continue st
      else if conn_stop_id conn \<in> targetStops args then
        reach_target
          \<lparr> path = path current @ [new_leg current conn],
            numTransfers = (if is_transfer (path current) conn then numTransfers current + 1
                            else numTransfers current),
            finalStop = conn_stop_id conn,
            finalTime = arrival_time conn,
            distanceToDestination = getMinDistanceToTarget (targetStopsList args) (conn_stop_id conn) \<rparr>
          st
      else if best_has_transfers (bestRoute st) 0 then Continue st
      else
        (let newNumTransfers = (if is_transfer (path current) conn then numTransfers current + 1
                                else numTransfers current)
         in if newNumTransfers > maxTransfers args then Continue st
            else Continue (st\<lparr> queue :=
                   insert_by_distance
                     \<lparr> path = path current @ [new_leg current conn],
                       numTransfers = newNumTransfers,
                       at_stop = conn_stop_id conn,
                       at_time = arrival_time conn,
                       distanceToTarget =
                         getMinDistanceToTarget (targetStopsList args) (conn_stop_id conn) \<rparr>
                     (queue st) \<rparr>)))"

text \<open>The loop body for the item \<open>current\<close> just taken off the queue.\<close>

definition expand :: "search_args \<Rightarrow> queue_item \<Rightarrow> bfs_state \<Rightarrow> bfs_state step" where
  "expand args current st =
     (if at_stop current \<in> targetStops args then
        reach_target
          \<lparr> path = path current, numTransfers = numTransfers current,
            finalStop = at_stop current, finalTime = at_time current,
            distanceToDestination = getMinDistanceToTarget (targetStopsList args) (at_stop current) \<rparr>
          st
      else if best_has_transfers (bestRoute st) 0 \<and> path current \<noteq> [] then Continue st
      else if numTransfers current > maxTransfers args then Continue st
      else if bestRoute st \<noteq> None \<and> js_lt (js_scale 2 (bestDistance st)) (distanceToTarget current)
        then Continue st
      else if (at_stop current, numTransfers current) \<in> visited st then Continue st
      else
        (case getDirectConnections (at_stop current) (at_time current) (preloaded args) of
           Inl e \<Rightarrow> Throw e
         | Inr connections \<Rightarrow>
             for_each (visit_connection args current) connections
               (st\<lparr> visited := insert (at_stop current, numTransfers current) (visited st) \<rparr>)))"

function bfs_while :: "search_args \<Rightarrow> nat \<Rightarrow> bfs_state \<Rightarrow> js_error + route option" where
  "bfs_while args iterations st =
     (case queue st of
        [] \<Rightarrow> Inr (bestRoute st)
      | current # rest \<Rightarrow>
          if iterations < MAX_ITERATIONS then
            (case expand args current (st\<lparr> queue := rest \<rparr>) of
               Return r \<Rightarrow> Inr r
             | Throw e \<Rightarrow> Inl e
             | Continue st' \<Rightarrow> bfs_while args (iterations + 1) st')
          else Inr (bestRoute st))"
  by pat_completeness auto
termination
  by (relation "measure (\<lambda>(args, iterations, st). MAX_ITERATIONS - iterations)") auto

declare bfs_while.simps [simp del]

text \<open>The queue and the best route before the first pass of the loop.\<close>

definition start_item :: "stop_with_distance list \<Rightarrow> string \<Rightarrow> string \<Rightarrow> queue_item" where
  "start_item targetList startStop startTime =
     \<lparr> path = [], numTransfers = 0, at_stop = startStop, at_time = startTime,
       distanceToTarget = getMinDistanceToTarget targetList startStop \<rparr>"

definition initial_state :: "stop_with_distance list \<Rightarrow> string \<Rightarrow> string \<Rightarrow> bfs_state" where
  "initial_state targetList startStop startTime =
     \<lparr> queue = [start_item targetList startStop startTime],
       visited = {}, bestRoute = None, bestDistance = Infinity \<rparr>"

definition bfsSearch ::
  "string \<Rightarrow> string set \<Rightarrow> stop_with_distance list \<Rightarrow> string \<Rightarrow> nat \<Rightarrow> preloadedData
   \<Rightarrow> js_error + route option" where
  "bfsSearch startStop targets targetList startTime maxT preloadedData =
     (if startStop \<in> targets then
        Inr (Some \<lparr> path = [], numTransfers = 0, finalStop = startStop, finalTime = startTime,
                    distanceToDestination = getMinDistanceToTarget targetList startStop \<rparr>)
      else
        bfs_while
          \<lparr> targetStops = targets, targetStopsList = targetList, maxTransfers = maxT,
            preloaded = preloadedData \<rparr>
          0 (initial_state targetList startStop startTime))"

text \<open>
  The state after the first \<open>n\<close> passes of the loop, when none of them returned or
  threw: the points of the search.
\<close>

fun bfs_run :: "search_args \<Rightarrow> nat \<Rightarrow> bfs_state \<Rightarrow> bfs_state step" where
  "bfs_run args 0 st = Continue st"
| "bfs_run args (Suc n) st =
     (case queue st of
        [] \<Rightarrow> Continue st
      | current # rest \<Rightarrow>
          (case expand args current (st\<lparr> queue := rest \<rparr>) of
             Return r \<Rightarrow> Return r
           | Throw e \<Rightarrow> Throw e
           | Continue st' \<Rightarrow> bfs_run args n st'))"

subsection \<open>\<open>find_transit_combined.js\<close>\<close>













section \<open>The frontier in the order of the specification\<close>


section \<open>Walk fallback: \<open>main\<close> of \<open>find_transit_combined.js\<close>\<close>






















section \<open>The candidates of the walk fallback, in words\<close>





section \<open>The order of the frontier, in words\<close>




section \<open>The lines of \<open>stop_times.txt\<close>: the first loop of \<open>getDirectConnections\<close>\<close>

text \<open>
  \<open>line.split('","')\<close>: the parts of a line between the occurrences of the three
  characters quote, comma, quote, found from the left.
\<close>

fun split_fields :: "string \<Rightarrow> string \<Rightarrow> string list" where
  "split_fields [] current = [current]"
| "split_fields (c # cs) current =
     (if c = CHR 0x22 \<and> take 2 cs = [CHR '','', CHR 0x22]
      then current # split_fields (drop 2 cs) []
      else split_fields cs (current @ [c]))"

text \<open>
  The two replacements after the split: a quote off the front of the first part, then a
  quote off the end of the last part.
\<close>

definition line_parts :: "string \<Rightarrow> string list" where
  "line_parts line =
     (let parts = split_fields line [];
          first = (case hd parts of [] \<Rightarrow> [] | c # cs \<Rightarrow> if c = CHR 0x22 then cs else c # cs);
          parts = parts[0 := first];
          final = last parts;
          final = (if final \<noteq> [] \<and> last final = CHR 0x22 then butlast final else final)
      in parts[length parts - 1 := final])"

text \<open>
  \<open>parts[idx]\<close> for \<open>idx = stHeaders.indexOf(name)\<close>: \<open>undefined\<close> when the header
  has no such column, the index being \<open>-1\<close>, and when the line has too few parts.
\<close>

definition column :: "string list \<Rightarrow> string \<Rightarrow> string list \<Rightarrow> string option" where
  "column headers name parts =
     (case findIndex (\<lambda>h. h = name) headers of
        None \<Rightarrow> None
      | Some idx \<Rightarrow> if idx < length parts then Some (parts ! idx) else None)"

text \<open>What the loop reads from one line: \<open>tId\<close>, \<open>sId\<close>, \<open>seq\<close>, \<open>arr\<close>, \<open>dep\<close>.\<close>

record line_values =
  tId :: "string option"
  sId :: "string option"
  seq_value :: "int option"
  arr_value :: "string option"
  dep_value :: "string option"

definition read_line :: "string list \<Rightarrow> string \<Rightarrow> line_values" where
  "read_line headers line =
     (let parts = line_parts line
      in \<lparr> tId = column headers ''trip_id'' parts,
           sId = column headers ''stop_id'' parts,
           seq_value = parseInt10 (column headers ''stop_sequence'' parts),
           arr_value = column headers ''arrival_time'' parts,
           dep_value = column headers ''departure_time'' parts \<rparr>)"

text \<open>
  The loop runs over the lines after the first and passes over a line whose \<open>tId\<close> is
  not in \<open>validTripIds\<close>; the other lines are pushed on \<open>tripStopMap\<close> in their
  order. When every pushed line has its five values, they are the rows the second loop
  works on. A pushed line that lacks a value, or whose \<open>stop_sequence\<close> is not a number,
  is outside the rows: then the result is \<open>None\<close>.
\<close>

definition pushed_lines :: "preloaded_files \<Rightarrow> line_values list" where
  "pushed_lines files =
     filter (\<lambda>v. tId v \<in> validTripIds files)
       (map (read_line (stHeaders files)) (tl (stopTimeLines files)))"

definition has_values :: "line_values \<Rightarrow> bool" where
  "has_values v =
     (tId v \<noteq> None \<and> sId v \<noteq> None \<and> seq_value v \<noteq> None \<and> arr_value v \<noteq> None
      \<and> dep_value v \<noteq> None)"

definition stop_time_of :: "line_values \<Rightarrow> stop_time" where
  "stop_time_of v =
     \<lparr> st_trip_id = the (tId v), st_stop_id = the (sId v), seq = the (seq_value v),
       arr = the (arr_value v), dep = the (dep_value v) \<rparr>"

definition tripStopMap_rows :: "preloaded_files \<Rightarrow> preloadedData option" where
  "tripStopMap_rows files =
     (if list_all has_values (pushed_lines files)
      then Some \<lparr> validTripIds = validTripIds files, tripRouteMap = tripRouteMap files,
                  stopTimes = map stop_time_of (pushed_lines files) \<rparr>
      else None)"

section \<open>The Direct-Trip Finder: \<open>findBestDirectTrip\<close> of \<open>find_next_transit.js\<close>\<close>












section \<open>Example feeds\<close>

definition only_stop_times :: data_dir where
  "only_stop_times = [''stop_times.txt'' \<mapsto> ''trip_id,stop_id'']"

definition stop_a :: stop where
  "stop_a = \<lparr> stop_id = ''1'', stop_name = ''A'', stop_lat = Some 0, stop_lon = Some 0 \<rparr>"

definition stop_b :: stop where
  "stop_b = \<lparr> stop_id = ''2'', stop_name = ''B'', stop_lat = Some 0, stop_lon = Some 0 \<rparr>"

definition stop_far :: stop where
  "stop_far = \<lparr> stop_id = ''3'', stop_name = ''C'', stop_lat = Some 0, stop_lon = Some 180 \<rparr>"

definition stop_nowhere :: stop where
  "stop_nowhere = \<lparr> stop_id = ''4'', stop_name = ''D'', stop_lat = None, stop_lon = Some 0 \<rparr>"

definition trip_entry :: "string \<Rightarrow> string \<Rightarrow> string \<Rightarrow> entry" where
  "trip_entry tid rid hs = [''trip_id'' \<mapsto> tid, ''route_id'' \<mapsto> rid, ''trip_headsign'' \<mapsto> hs]"

definition row :: "string \<Rightarrow> string \<Rightarrow> int \<Rightarrow> string \<Rightarrow> string \<Rightarrow> stop_time" where
  "row t s n a d = \<lparr> st_trip_id = t, st_stop_id = s, seq = n, arr = a, dep = d \<rparr>"

definition target :: "string \<Rightarrow> real \<Rightarrow> stop_with_distance" where
  "target sid d = \<lparr> stop_id = sid, stop_name = sid, stop_lat = Some 0, stop_lon = Some 0, distance = d \<rparr>"

text \<open>A transfer over midnight: \<open>N1\<close> reaches \<open>B\<close> at 23:57, \<open>N2\<close> leaves \<open>B\<close> at 23:58.\<close>

definition feed_midnight :: preloadedData where
  "feed_midnight = \<lparr> validTripIds = {Some ''N1'', Some ''N2''},
     tripRouteMap = [''N1'' \<mapsto> trip_entry ''N1'' ''R1'' ''H1'', ''N2'' \<mapsto> trip_entry ''N2'' ''R2'' ''H2''],
     stopTimes = [row ''N1'' ''A'' 1 ''23:50:00'' ''23:50:00'',
                  row ''N1'' ''B'' 2 ''23:57:00'' ''23:57:00'',
                  row ''N2'' ''B'' 1 ''23:58:00'' ''23:58:00'',
                  row ''N2'' ''C'' 2 ''23:59:30'' ''23:59:30''] \<rparr>"

text \<open>
  Stop \<open>X\<close> is reached from \<open>A\<close> directly on \<open>T1\<close>, and with one transfer over
  \<open>Y\<close> on \<open>T2\<close> and \<open>T3\<close>; \<open>T4\<close> goes on from \<open>X\<close>. No trip reaches the target.
\<close>

definition feed_revisit :: preloadedData where
  "feed_revisit = \<lparr> validTripIds = {Some ''T1'', Some ''T2'', Some ''T3'', Some ''T4''},
     tripRouteMap = [''T1'' \<mapsto> trip_entry ''T1'' ''R1'' ''H1'', ''T2'' \<mapsto> trip_entry ''T2'' ''R2'' ''H2'',
                     ''T3'' \<mapsto> trip_entry ''T3'' ''R3'' ''H3'', ''T4'' \<mapsto> trip_entry ''T4'' ''R4'' ''H4''],
     stopTimes = [row ''T1'' ''A'' 1 ''08:05:00'' ''08:05:00'',
                  row ''T1'' ''X'' 2 ''08:10:00'' ''08:10:00'',
                  row ''T2'' ''A'' 1 ''08:06:00'' ''08:06:00'',
                  row ''T2'' ''Y'' 2 ''08:12:00'' ''08:12:00'',
                  row ''T3'' ''Y'' 1 ''08:20:00'' ''08:20:00'',
                  row ''T3'' ''X'' 2 ''08:30:00'' ''08:30:00'',
                  row ''T4'' ''X'' 1 ''09:00:00'' ''09:00:00'',
                  row ''T4'' ''W'' 2 ''09:10:00'' ''09:10:00''] \<rparr>"

definition args_revisit :: search_args where
  "args_revisit = \<lparr> targetStops = {''Z''}, targetStopsList = [target ''Z'' 0.1],
     maxTransfers = 2, preloaded = feed_revisit \<rparr>"

text \<open>One trip from \<open>A\<close> passes two target stops: \<open>B\<close> at 0.5 km, then \<open>C\<close> at 0.1 km.\<close>

definition feed_two_targets :: preloadedData where
  "feed_two_targets = \<lparr> validTripIds = {Some ''T1''},
     tripRouteMap = [''T1'' \<mapsto> trip_entry ''T1'' ''R1'' ''H1''],
     stopTimes = [row ''T1'' ''A'' 1 ''08:00:00'' ''08:00:00'',
                  row ''T1'' ''B'' 2 ''08:10:00'' ''08:10:00'',
                  row ''T1'' ''C'' 3 ''08:20:00'' ''08:20:00''] \<rparr>"

definition args_two_targets :: search_args where
  "args_two_targets = \<lparr> targetStops = {''B'', ''C''},
     targetStopsList = [target ''C'' 0.1, target ''B'' 0.5],
     maxTransfers = 2, preloaded = feed_two_targets \<rparr>"


















text \<open>A line of \<open>stop_times.txt\<close> with every field in quotes.\<close>

fun quoted :: "string list \<Rightarrow> string" where
  "quoted [] = []"
| "quoted [f] = CHR 0x22 # f @ [CHR 0x22]"
| "quoted (f # g # fs) = CHR 0x22 # f @ [CHR 0x22, CHR '',''] @ quoted (g # fs)"

text \<open>
  Trip \<open>L\<close> leaves \<open>B\<close> at 08:00, passes \<open>C\<close>, is at \<open>B\<close> again at 08:20 and ends
  at \<open>D\<close> at 08:30.
\<close>

definition files_loop :: preloaded_files where
  "files_loop = \<lparr> validTripIds = {Some ''L''},
     tripRouteMap = [''L'' \<mapsto> trip_entry ''L'' ''R'' ''Loop''],
     stopTimeLines =
       [''trip_id,arrival_time,departure_time,stop_id,stop_sequence'',
        quoted [''L'', ''08:00:00'', ''08:00:00'', ''B'', ''1''],
        quoted [''L'', ''08:10:00'', ''08:10:00'', ''C'', ''2''],
        quoted [''L'', ''08:20:00'', ''08:20:00'', ''B'', ''3''],
        quoted [''L'', ''08:30:00'', ''08:30:00'', ''D'', ''4'']],
     stHeaders = [''trip_id'', ''arrival_time'', ''departure_time'', ''stop_id'', ''stop_sequence''],
     routes = [] \<rparr>"

definition feed_loop :: preloadedData where
  "feed_loop = \<lparr> validTripIds = {Some ''L''},
     tripRouteMap = [''L'' \<mapsto> trip_entry ''L'' ''R'' ''Loop''],
     stopTimes = [row ''L'' ''B'' 1 ''08:00:00'' ''08:00:00'',
                  row ''L'' ''C'' 2 ''08:10:00'' ''08:10:00'',
                  row ''L'' ''B'' 3 ''08:20:00'' ''08:20:00'',
                  row ''L'' ''D'' 4 ''08:30:00'' ''08:30:00''] \<rparr>"

text \<open>The same file with bare fields, as \<open>parseCSV\<close> would also read it.\<close>

definition files_bare :: preloaded_files where
  "files_bare = files_loop \<lparr> stopTimeLines :=
       [''trip_id,arrival_time,departure_time,stop_id,stop_sequence'',
        ''L,08:00:00,08:00:00,B,1'',
        ''L,08:10:00,08:10:00,C,2''] \<rparr>"




chapter \<open>Verified properties\<close>

section \<open>The time helpers\<close>

lemma less_ten_cases: "n < 10 \<Longrightarrow> n \<in> {0, 1, 2, 3, 4, 5, 6, 7, 8, 9 :: nat}"
  by auto

lemma of_char_digit_char: "n < 10 \<Longrightarrow> (of_char (digit_char n) :: nat) = 48 + n"
  by (drule less_ten_cases) (auto simp: digit_char_def)

lemma is_digit_digit_char: "n < 10 \<Longrightarrow> is_digit (digit_char n)"
  by (simp add: is_digit_def of_char_digit_char)

lemma digit_val_digit_char: "n < 10 \<Longrightarrow> digit_val (digit_char n) = n"
  by (simp add: digit_val_def of_char_digit_char)

lemma digit_char_not_colon: "n < 10 \<Longrightarrow> digit_char n \<noteq> CHR '':''"
proof
  assume n: "n < 10" and eq: "digit_char n = CHR '':''"
  have "(of_char (digit_char n) :: nat) = 58" by (simp add: eq)
  with n show False by (simp add: of_char_digit_char)
qed

lemma Number_js_two_digits: "n < 100 \<Longrightarrow> Number_js (two_digits n) = Some n"
  by (simp add: Number_js_def two_digits_def is_digit_digit_char digit_val_digit_char)

lemma show_nat_two_digits:
  assumes "n < 100"
  shows "replicate (2 - length (show_nat n)) (CHR ''0'') @ show_nat n = two_digits n"
proof (cases "n < 10")
  case True
  then have "show_nat n = [digit_char n]" by (simp add: show_nat.simps)
  moreover have "CHR ''0'' = digit_char 0" by (simp add: digit_char_def)
  ultimately show ?thesis using True by (simp add: two_digits_def)
next
  case False
  from assms have d: "n div 10 < 10" by simp
  have "show_nat n = show_nat (n div 10) @ [digit_char (n mod 10)]"
    using False by (subst show_nat.simps) simp
  also have "show_nat (n div 10) = [digit_char (n div 10)]"
    using d by (subst show_nat.simps) simp
  finally show ?thesis by (simp add: two_digits_def)
qed

lemma padStart2_two_digits: "n < 100 \<Longrightarrow> padStart2 (Some n) = two_digits n"
  by (simp add: padStart2_def show_nat_two_digits)

lemma split_on_time_string:
  assumes "hh < 100" "mm < 100" "ss < 100"
  shows "split_on (CHR '':'') (time_string hh mm ss) = [two_digits hh, two_digits mm, two_digits ss]"
proof -
  have d: "hh div 10 < 10" "hh mod 10 < 10" "mm div 10 < 10" "mm mod 10 < 10"
    "ss div 10 < 10" "ss mod 10 < 10"
    using assms by simp_all
  show ?thesis
    by (simp add: time_string_def two_digits_def digit_char_not_colon d)
qed

lemma total_seconds_time_string:
  assumes "hh < 100" "mm < 100" "ss < 100"
  shows "total_seconds (time_string hh mm ss) = Some (hh * 3600 + mm * 60 + ss)"
  using assms
  by (simp add: total_seconds_def split_on_time_string num_at_def Number_js_two_digits)

lemma addMinutesToTime_time_string:
  assumes "hh < 100" "mm < 60" "ss < 60"
  shows "addMinutesToTime (time_string hh mm ss) k =
         time_string (((60 * hh + mm + k) div 60) mod 24) ((mm + k) mod 60) ss"
proof -
  have m: "mm < 100" and s: "ss < 100" using assms by simp_all
  have h': "((hh * 60 + mm + k) div 60) mod 24 < 100"
    by (rule less_trans [of _ 24]) simp_all
  have m': "(hh * 60 + mm + k) mod 60 < 100"
    by (rule less_trans [of _ 60]) simp_all
  have eqm: "(hh * 60 + mm + k) mod 60 = (mm + k) mod 60"
    by (simp add: add.assoc)
  have "addMinutesToTime (time_string hh mm ss) k =
        two_digits (((hh * 60 + mm + k) div 60) mod 24) @ '':'' @
        two_digits ((hh * 60 + mm + k) mod 60) @ '':'' @ two_digits ss"
    using assms(1) m s h' m'
    by (simp add: addMinutesToTime_def split_on_time_string num_at_def Number_js_two_digits
        padStart2_two_digits Let_def)
  then show ?thesis
    by (simp add: time_string_def eqm mult.commute)
qed

text \<open>
  Claim C10. For a well-formed time \<open>HH:MM:SS\<close> (minutes and seconds below 60, a
  two-digit hour) and a minute count \<open>k\<close>, \<open>addMinutesToTime\<close> returns the time whose
  hour is \<open>floor((60 HH + MM + k) / 60) mod 24\<close>, whose minute is \<open>(MM + k) mod 60\<close> and
  whose seconds are unchanged; and when the time is at or after 23:55, adding the
  transfer buffer of 5 minutes gives a time that \<open>compareTime\<close> orders before the
  original one.
\<close>

theorem addMinutesToTime_wraps:
  assumes "hh < 100" "mm < 60" "ss < 60"
  shows "addMinutesToTime (time_string hh mm ss) k =
           time_string (((60 * hh + mm + k) div 60) mod 24) ((mm + k) mod 60) ss
         \<and> (23 * 60 + 55 \<le> 60 * hh + mm \<longrightarrow>
              compareTime (addMinutesToTime (time_string hh mm ss) TRANSFER_TIME_MINUTES)
                (time_string hh mm ss) = - 1)"
proof (intro conjI impI)
  show "addMinutesToTime (time_string hh mm ss) k =
        time_string (((60 * hh + mm + k) div 60) mod 24) ((mm + k) mod 60) ss"
    using assms by (rule addMinutesToTime_time_string)
next
  assume late: "23 * 60 + 55 \<le> 60 * hh + mm"
  let ?h = "((60 * hh + mm + 5) div 60) mod 24" and ?m = "(mm + 5) mod 60"
  have hlt: "?h < 24" by simp
  have mlt: "?m < 60" by simp
  have new: "addMinutesToTime (time_string hh mm ss) TRANSFER_TIME_MINUTES = time_string ?h ?m ss"
    using assms by (simp add: addMinutesToTime_time_string TRANSFER_TIME_MINUTES_def)
  have t_new: "total_seconds (time_string ?h ?m ss) = Some (?h * 3600 + ?m * 60 + ss)"
    using assms(3) hlt mlt by (intro total_seconds_time_string) simp_all
  have t_old: "total_seconds (time_string hh mm ss) = Some (hh * 3600 + mm * 60 + ss)"
    using assms by (intro total_seconds_time_string) simp_all
  have less: "?h * 3600 + ?m * 60 + ss < hh * 3600 + mm * 60 + ss"
  proof (cases "24 \<le> hh")
    case True
    have "?h * 3600 + ?m * 60 < 24 * 3600"
      using hlt mlt by simp
    also have "\<dots> \<le> hh * 3600" using True by simp
    finally show ?thesis by simp
  next
    case False
    with late assms(2) have hh: "hh = 23" and mm: "55 \<le> mm" by simp_all
    have "(60 * hh + mm + 5) div 60 = 24" using hh mm assms(2) by simp
    then have h0: "?h = 0" by simp
    have "?m < 5" using mm assms(2) by (simp add: mod_if) arith
    with h0 show ?thesis using hh by simp
  qed
  from less have "num_lt (Some (?h * 3600 + ?m * 60 + ss)) (Some (hh * 3600 + mm * 60 + ss))"
    by (simp add: num_lt_def)
  then show "compareTime (addMinutesToTime (time_string hh mm ss) TRANSFER_TIME_MINUTES)
          (time_string hh mm ss) = - 1"
    by (simp add: new compareTime_def t_new t_old Let_def)
qed

theorem addMinutesToTime_wraps_witness:
  "addMinutesToTime ''23:57:00'' 5 = ''00:02:00''
   \<and> compareTime (addMinutesToTime ''23:57:00'' TRANSFER_TIME_MINUTES) ''23:57:00'' = - 1"
proof -
  have ts: "time_string 23 57 0 = ''23:57:00''" "time_string 0 2 0 = ''00:02:00''"
    by (simp_all add: time_string_def two_digits_def digit_char_def)
  show ?thesis
    using addMinutesToTime_wraps [of 23 57 0 5] by (simp add: ts)
qed

section \<open>Missing files\<close>

text \<open>
  Claim C8, as stated, fails: with \<open>routes.txt\<close>, \<open>calendar.txt\<close>, \<open>trips.txt\<close>
  absent, \<open>preloadTransitData\<close> raises nothing and returns empty tables.
\<close>

theorem missing_file_not_fatal_counterexample:
  "loadFile Map.empty ''stops.txt'' = ([''File not found: stops.txt''], [])
   \<and> preloadTransitData only_stop_times ''monday'' 20251124 None =
      ([''File not found: routes.txt'', ''File not found: calendar.txt'',
        ''File not found: trips.txt''],
       Inr \<lparr> validTripIds = {}, tripRouteMap = Map.empty,
             stopTimeLines = [''trip_id,stop_id''], stHeaders = [''trip_id'', ''stop_id''],
             routes = [] \<rparr>)"
  by (simp add: preloadTransitData_def only_stop_times_def loadFile_def js_trim_def
      is_space_def strip_quotes_def)

lemma preloadTransitData_error:
  "snd (preloadTransitData dir dayName todayDate routeType) =
     (case dir ''stop_times.txt'' of
        None \<Rightarrow> Inl (ENOENT ''stop_times.txt'')
      | Some raw \<Rightarrow> Inr (projr (snd (preloadTransitData dir dayName todayDate routeType))))"
  by (simp add: preloadTransitData_def Let_def split: prod.splits option.splits)

text \<open>
  Claim C8, amended. An absent table read through \<open>loadFile\<close> is reported on the error
  stream and read as the empty table; \<open>preloadTransitData\<close> raises exactly when
  \<open>stop_times.txt\<close> is absent, the error being the one of \<open>fs.readFileSync\<close>.
\<close>

theorem missing_file_behaviour:
  "(dir filename = None \<longrightarrow>
      loadFile dir filename = ([''File not found: '' @ filename], []))
   \<and> (dir ''stop_times.txt'' = None \<longrightarrow>
      snd (preloadTransitData dir dayName todayDate routeType) = Inl (ENOENT ''stop_times.txt''))
   \<and> (dir ''stop_times.txt'' \<noteq> None \<longrightarrow>
      \<not> isl (snd (preloadTransitData dir dayName todayDate routeType)))"
proof (intro conjI impI)
  assume "dir filename = None"
  then show "loadFile dir filename = ([''File not found: '' @ filename], [])"
    by (simp add: loadFile_def)
next
  assume "dir ''stop_times.txt'' = None"
  then show "snd (preloadTransitData dir dayName todayDate routeType) = Inl (ENOENT ''stop_times.txt'')"
    by (subst preloadTransitData_error) simp
next
  assume "dir ''stop_times.txt'' \<noteq> None"
  then obtain raw where "dir ''stop_times.txt'' = Some raw" by auto
  then have "snd (preloadTransitData dir dayName todayDate routeType) =
    Inr (projr (snd (preloadTransitData dir dayName todayDate routeType)))"
    by (subst preloadTransitData_error) simp
  then show "\<not> isl (snd (preloadTransitData dir dayName todayDate routeType))"
    by (metis sum.disc(2))
qed

theorem missing_file_behaviour_witness:
  "loadFile Map.empty ''routes.txt'' = ([''File not found: routes.txt''], [])
   \<and> snd (preloadTransitData Map.empty ''monday'' 20251124 None) = Inl (ENOENT ''stop_times.txt'')
   \<and> \<not> isl (snd (preloadTransitData only_stop_times ''monday'' 20251124 None))"
  using missing_file_behaviour [of Map.empty "''routes.txt''" "''monday''" 20251124 None]
    missing_file_behaviour [of only_stop_times "''routes.txt''" "''monday''" 20251124 None]
  by (simp add: only_stop_times_def)

section \<open>Nearest stops\<close>

lemma example_distances:
  "calculateDistance 0 0 0 0 = 0" "calculateDistance 0 0 0 180 = 6371 * pi"
  by (simp_all add: calculateDistance_def atan2_def)

lemma example_nearest:
  "findNearestStops [stop_far, stop_b, stop_nowhere, stop_a] 0 0 2 =
     [stop.extend stop_b \<lparr> distance = 0 \<rparr>, stop.extend stop_a \<lparr> distance = 0 \<rparr>]"
  by (simp add: findNearestStops_def has_coordinates_def with_distance_def stop_a_def stop_b_def
      stop_far_def stop_nowhere_def example_distances stop.extend_def not_le)

text \<open>
  Claim C7, as stated, fails in its last part: two stops at the same place come out in
  the order of \<open>stops.txt\<close>, here the greater \<open>stop_id\<close> first.
\<close>

theorem nearest_tie_by_stop_id_counterexample:
  "map stop_id (findNearestStops [stop_far, stop_b, stop_nowhere, stop_a] 0 0 2) = [''2'', ''1'']
   \<and> map distance (findNearestStops [stop_far, stop_b, stop_nowhere, stop_a] 0 0 2) = [0, 0]
   \<and> str_lt ''1'' ''2''"
  unfolding example_nearest by (simp add: stop.extend_def stop_a_def stop_b_def)

text \<open>
  Claim C7, amended. The query returns at most \<open>N\<close> stops, each a stop of the table
  that has both coordinates, tagged with its Haversine distance to \<open>P\<close>; the distances
  are non-decreasing; and the returned stops of one distance \<open>d\<close> are the first ones
  of that distance in the table, in the order of the table.
\<close>

theorem findNearestStops_sorted_stable:
  "length (findNearestStops stops lat lng n) \<le> n
   \<and> sorted (map distance (findNearestStops stops lat lng n))
   \<and> (\<forall>r \<in> set (findNearestStops stops lat lng n).
         \<exists>s \<in> set stops. has_coordinates s \<and> r = with_distance lat lng s
           \<and> distance r = calculateDistance lat lng (the (stop_lat s)) (the (stop_lon s)))
   \<and> prefix (filter (\<lambda>r. distance r = d) (findNearestStops stops lat lng n))
        (filter (\<lambda>r. distance r = d)
           (map (with_distance lat lng) (filter has_coordinates stops)))"
proof (intro conjI)
  let ?cands = "map (with_distance lat lng) (filter has_coordinates stops)"
  show "length (findNearestStops stops lat lng n) \<le> n"
    by (simp add: findNearestStops_def)
  have "sorted (map distance (sort_key distance ?cands))"
    by (rule sorted_sort_key)
  then have "sorted (take n (map distance (sort_key distance ?cands)))"
    by (rule sorted_wrt_take)
  then show "sorted (map distance (findNearestStops stops lat lng n))"
    by (simp add: findNearestStops_def take_map)
  show "\<forall>r \<in> set (findNearestStops stops lat lng n).
         \<exists>s \<in> set stops. has_coordinates s \<and> r = with_distance lat lng s
           \<and> distance r = calculateDistance lat lng (the (stop_lat s)) (the (stop_lon s))"
  proof
    fix r assume "r \<in> set (findNearestStops stops lat lng n)"
    then have "r \<in> set (sort_key distance ?cands)"
      unfolding findNearestStops_def by (rule in_set_takeD)
    then have "r \<in> set ?cands" by simp
    then obtain s where "s \<in> set stops" "has_coordinates s" "r = with_distance lat lng s"
      by auto
    moreover have "distance (with_distance lat lng s) =
        calculateDistance lat lng (the (stop_lat s)) (the (stop_lon s))"
      by (simp add: with_distance_def stop.extend_def)
    ultimately show "\<exists>s \<in> set stops. has_coordinates s \<and> r = with_distance lat lng s
           \<and> distance r = calculateDistance lat lng (the (stop_lat s)) (the (stop_lon s))"
      by blast
  qed
  have "prefix (filter (\<lambda>r. distance r = d) (take n (sort_key distance ?cands)))
          (filter (\<lambda>r. distance r = d) (sort_key distance ?cands))"
    by (rule filter_mono_prefix) (rule take_is_prefix)
  then show "prefix (filter (\<lambda>r. distance r = d) (findNearestStops stops lat lng n))
        (filter (\<lambda>r. distance r = d) ?cands)"
    by (simp add: findNearestStops_def sort_key_stable)
qed

theorem findNearestStops_sorted_stable_witness:
  "findNearestStops [stop_far, stop_b, stop_nowhere, stop_a] 0 0 2 \<noteq> []
   \<and> length (findNearestStops [stop_far, stop_b, stop_nowhere, stop_a] 0 0 2) \<le> 2
   \<and> sorted (map distance (findNearestStops [stop_far, stop_b, stop_nowhere, stop_a] 0 0 2))
   \<and> (\<exists>s \<in> set [stop_far, stop_b, stop_nowhere, stop_a]. has_coordinates s
         \<and> hd (findNearestStops [stop_far, stop_b, stop_nowhere, stop_a] 0 0 2) = with_distance 0 0 s)"
proof -
  have nonempty: "findNearestStops [stop_far, stop_b, stop_nowhere, stop_a] 0 0 2 \<noteq> []"
    by (simp add: example_nearest)
  then have "hd (findNearestStops [stop_far, stop_b, stop_nowhere, stop_a] 0 0 2)
      \<in> set (findNearestStops [stop_far, stop_b, stop_nowhere, stop_a] 0 0 2)"
    by (rule hd_in_set)
  with nonempty findNearestStops_sorted_stable [of "[stop_far, stop_b, stop_nowhere, stop_a]" 0 0 2 0]
  show ?thesis by blast
qed

section \<open>The Connection Expander\<close>

lemma set_first_occurrences: "set (first_occurrences xs) = set xs"
  by (induction xs rule: first_occurrences.induct) auto

lemma distinct_first_occurrences: "distinct (first_occurrences xs)"
  by (induction xs rule: first_occurrences.induct) (auto simp: set_first_occurrences)


lemma distinct_own_keys: "distinct (own_keys ks)"
  by (auto simp: own_keys_def Let_def distinct_first_occurrences)


lemma findIndex_None: "findIndex P xs = None \<longleftrightarrow> (\<forall>x \<in> set xs. \<not> P x)"
  by (induction xs) auto

lemma findIndex_Some:
  "findIndex P xs = Some i \<Longrightarrow> i < length xs \<and> P (xs ! i) \<and> (\<forall>j < i. \<not> P (xs ! j))"
proof (induction xs arbitrary: i)
  case Nil
  then show ?case by simp
next
  case (Cons x xs)
  show ?case
  proof (cases "P x")
    case True
    with Cons.prems show ?thesis by simp
  next
    case False
    with Cons.prems obtain k where k: "findIndex P xs = Some k" "i = Suc k" by auto
    from Cons.IH [OF k(1)] False k(2) show ?thesis
      by (auto simp: nth_Cons split: nat.splits)
  qed
qed

lemmas expander_eval =
  getDirectConnections_def valid_rows_def trip_stops_def own_keys_def is_array_index_def
  trip_connections_def compareTime_def total_seconds_def num_at_def Number_js_def is_digit_def
  digit_val_def num_lt_def row_def trip_entry_def index_value_def

section \<open>Evaluation\<close>

lemmas search_eval =
  bfsSearch_def initial_state_def start_item_def bfs_while.simps expand_def visit_connection_def
  reach_target_def getMinDistanceToTarget_def target_def is_transfer_def new_leg_def
  next_available_time_def best_has_transfers_def MAX_ITERATIONS_def TRANSFER_TIME_MINUTES_def
  addMinutesToTime_def padStart2_def show_nat.simps digit_char_def Let_def

lemma midnight_search:
  "bfsSearch ''A'' {''C''} [target ''C'' 0.1] ''23:00:00'' 2 feed_midnight =
     Inr (Some \<lparr> path =
            [\<lparr> leg_from = ''A'', leg_to = ''B'', departure = ''23:50:00'', arrival = ''23:57:00'',
                trip_id = ''N1'', route_id = Some ''R1'', headsign = Some ''H1'' \<rparr>,
             \<lparr> leg_from = ''B'', leg_to = ''C'', departure = ''23:58:00'', arrival = ''23:59:30'',
                trip_id = ''N2'', route_id = Some ''R2'', headsign = Some ''H2'' \<rparr>],
            numTransfers = 1, finalStop = ''C'', finalTime = ''23:59:30'',
            distanceToDestination = Num 0.1 \<rparr>)"
  by (simp add: feed_midnight_def search_eval expander_eval)

lemma bfs_run_add:
  "bfs_run args (m + n) st =
     (case bfs_run args m st of
        Return r \<Rightarrow> Return r
      | Throw e \<Rightarrow> Throw e
      | Continue st' \<Rightarrow> bfs_run args n st')"
proof (induction m arbitrary: st)
  case 0
  then show ?case by simp
next
  case (Suc m)
  show ?case
  proof (cases "queue st")
    case Nil
    then have "bfs_run args k st = Continue st" for k
      by (cases k) simp_all
    with Nil show ?thesis by simp
  next
    case (Cons current rest)
    then show ?thesis
      by (simp add: Suc.IH split: step.splits)
  qed
qed

lemmas run_eval =
  initial_state_def start_item_def expand_def visit_connection_def
  reach_target_def getMinDistanceToTarget_def target_def is_transfer_def new_leg_def
  next_available_time_def best_has_transfers_def TRANSFER_TIME_MINUTES_def
  addMinutesToTime_def padStart2_def show_nat.simps digit_char_def Let_def

section \<open>The transfer buffer\<close>

text \<open>
  Claim C5 on the feed \<open>feed_midnight\<close>: the search from \<open>A\<close> at 23:00 returns a
  journey of two legs on different trips, the first arriving at 23:57:00 and the second
  leaving at 23:58:00, one minute later. The buffer added to 23:57:00 is 00:02:00, which
  \<open>compareTime\<close> puts before 23:58:00.
\<close>

theorem transfer_buffer_broken_at_midnight:
  "bfsSearch ''A'' {''C''} [target ''C'' 0.1] ''23:00:00'' 2 feed_midnight =
     Inr (Some \<lparr> path =
            [\<lparr> leg_from = ''A'', leg_to = ''B'', departure = ''23:50:00'', arrival = ''23:57:00'',
                trip_id = ''N1'', route_id = Some ''R1'', headsign = Some ''H1'' \<rparr>,
             \<lparr> leg_from = ''B'', leg_to = ''C'', departure = ''23:58:00'', arrival = ''23:59:30'',
                trip_id = ''N2'', route_id = Some ''R2'', headsign = Some ''H2'' \<rparr>],
            numTransfers = 1, finalStop = ''C'', finalTime = ''23:59:30'',
            distanceToDestination = Num 0.1 \<rparr>)
   \<and> timeDifferenceMinutes ''23:57:00'' ''23:58:00'' = Some 1
   \<and> addMinutesToTime ''23:57:00'' TRANSFER_TIME_MINUTES = ''00:02:00''
   \<and> compareTime ''23:58:00'' ''00:02:00'' = 1"
proof (intro conjI)
  show "timeDifferenceMinutes ''23:57:00'' ''23:58:00'' = Some 1"
    by (simp add: timeDifferenceMinutes_def minutes_of_day_def num_at_def Number_js_def
        is_digit_def digit_val_def)
  show "addMinutesToTime ''23:57:00'' TRANSFER_TIME_MINUTES = ''00:02:00''"
    by (simp add: run_eval num_at_def Number_js_def is_digit_def digit_val_def)
  show "compareTime ''23:58:00'' ''00:02:00'' = 1"
    by (simp add: compareTime_def total_seconds_def num_at_def Number_js_def is_digit_def
        digit_val_def num_lt_def)
qed (rule midnight_search)

section \<open>The visited set\<close>

text \<open>
  Claim C4 on the feed \<open>feed_revisit\<close>, searching from \<open>A\<close> at 08:00 with at most two
  transfers. After four passes of the loop \<open>(X, 0)\<close> is in the visited set and the
  queue holds \<open>X\<close> reached with one transfer. The fifth pass does not skip this item:
  it adds \<open>(X, 1)\<close> to the visited set and puts the onward stop \<open>W\<close> on the queue.
\<close>

theorem revisit_with_more_transfers_is_expanded:
  "bfs_run args_revisit 4 (initial_state (targetStopsList args_revisit) ''A'' ''08:00:00'') =
     Continue \<lparr> queue =
         [\<lparr> path =
             [\<lparr> leg_from = ''A'', leg_to = ''Y'', departure = ''08:06:00'', arrival = ''08:12:00'',
                 trip_id = ''T2'', route_id = Some ''R2'', headsign = Some ''H2'' \<rparr>,
              \<lparr> leg_from = ''Y'', leg_to = ''X'', departure = ''08:20:00'', arrival = ''08:30:00'',
                 trip_id = ''T3'', route_id = Some ''R3'', headsign = Some ''H3'' \<rparr>],
             numTransfers = 1, at_stop = ''X'', at_time = ''08:30:00'',
             distanceToTarget = Infinity \<rparr>],
       visited = {(''W'', 1), (''Y'', 0), (''X'', 0), (''A'', 0)},
       bestRoute = None, bestDistance = Infinity \<rparr>
   \<and> bfs_run args_revisit 5 (initial_state (targetStopsList args_revisit) ''A'' ''08:00:00'') =
     Continue \<lparr> queue =
         [\<lparr> path =
             [\<lparr> leg_from = ''A'', leg_to = ''Y'', departure = ''08:06:00'', arrival = ''08:12:00'',
                 trip_id = ''T2'', route_id = Some ''R2'', headsign = Some ''H2'' \<rparr>,
              \<lparr> leg_from = ''Y'', leg_to = ''X'', departure = ''08:20:00'', arrival = ''08:30:00'',
                 trip_id = ''T3'', route_id = Some ''R3'', headsign = Some ''H3'' \<rparr>,
              \<lparr> leg_from = ''X'', leg_to = ''W'', departure = ''09:00:00'', arrival = ''09:10:00'',
                 trip_id = ''T4'', route_id = Some ''R4'', headsign = Some ''H4'' \<rparr>],
             numTransfers = 2, at_stop = ''W'', at_time = ''09:10:00'',
             distanceToTarget = Infinity \<rparr>],
       visited = {(''X'', 1), (''W'', 1), (''Y'', 0), (''X'', 0), (''A'', 0)},
       bestRoute = None, bestDistance = Infinity \<rparr>"
proof -
  have four: "(4::nat) = Suc (Suc (Suc (Suc 0)))" and five: "(5::nat) = 4 + 1"
    by simp_all
  have first: "bfs_run args_revisit 4 (initial_state (targetStopsList args_revisit) ''A'' ''08:00:00'') =
     Continue \<lparr> queue =
         [\<lparr> path =
             [\<lparr> leg_from = ''A'', leg_to = ''Y'', departure = ''08:06:00'', arrival = ''08:12:00'',
                 trip_id = ''T2'', route_id = Some ''R2'', headsign = Some ''H2'' \<rparr>,
              \<lparr> leg_from = ''Y'', leg_to = ''X'', departure = ''08:20:00'', arrival = ''08:30:00'',
                 trip_id = ''T3'', route_id = Some ''R3'', headsign = Some ''H3'' \<rparr>],
             numTransfers = 1, at_stop = ''X'', at_time = ''08:30:00'',
             distanceToTarget = Infinity \<rparr>],
       visited = {(''W'', 1), (''Y'', 0), (''X'', 0), (''A'', 0)},
       bestRoute = None, bestDistance = Infinity \<rparr>"
    unfolding four
    by (simp add: args_revisit_def feed_revisit_def run_eval expander_eval)
  show ?thesis
    unfolding five bfs_run_add first
    by (simp add: first args_revisit_def feed_revisit_def run_eval expander_eval)
qed

section \<open>Early termination\<close>

lemma two_targets_search:
  "bfsSearch ''A'' {''B'', ''C''} [target ''C'' 0.1, target ''B'' 0.5] ''07:30:00'' 2 feed_two_targets =
     Inr (Some \<lparr> path =
            [\<lparr> leg_from = ''A'', leg_to = ''C'', departure = ''08:00:00'', arrival = ''08:20:00'',
                trip_id = ''T1'', route_id = Some ''R1'', headsign = Some ''H1'' \<rparr>],
            numTransfers = 0, finalStop = ''C'', finalTime = ''08:20:00'',
            distanceToDestination = Num 0.1 \<rparr>)"
  by (simp add: feed_two_targets_def search_eval expander_eval)

text \<open>
  Claim C3, as stated, fails in \<open>find_transit_bfs.js\<close>: on \<open>feed_two_targets\<close> the
  connection from \<open>A\<close> to the target \<open>B\<close> is a candidate with no transfer, at 0.5 km;
  it is recorded and the search goes on, and returns the later stop \<open>C\<close> of the trip.
\<close>

theorem direct_candidate_does_not_return_counterexample:
  "visit_connection args_two_targets (start_item (targetStopsList args_two_targets) ''A'' ''07:30:00'')
     \<lparr> conn_stop_id = ''B'', arrival_time = ''08:10:00'', departure_time = ''08:00:00'',
       conn_trip_id = ''T1'', conn_route_id = Some ''R1'', conn_headsign = Some ''H1'' \<rparr>
     \<lparr> queue = [], visited = {(''A'', 0)}, bestRoute = None, bestDistance = Infinity \<rparr>
   = Continue
       \<lparr> queue = [], visited = {(''A'', 0)},
         bestRoute = Some \<lparr> path =
            [\<lparr> leg_from = ''A'', leg_to = ''B'', departure = ''08:00:00'', arrival = ''08:10:00'',
                trip_id = ''T1'', route_id = Some ''R1'', headsign = Some ''H1'' \<rparr>],
            numTransfers = 0, finalStop = ''B'', finalTime = ''08:10:00'',
            distanceToDestination = Num 0.5 \<rparr>,
         bestDistance = Num 0.5 \<rparr>
   \<and> bfsSearch ''A'' {''B'', ''C''} [target ''C'' 0.1, target ''B'' 0.5] ''07:30:00'' 2 feed_two_targets =
     Inr (Some \<lparr> path =
            [\<lparr> leg_from = ''A'', leg_to = ''C'', departure = ''08:00:00'', arrival = ''08:20:00'',
                trip_id = ''T1'', route_id = Some ''R1'', headsign = Some ''H1'' \<rparr>],
            numTransfers = 0, finalStop = ''C'', finalTime = ''08:20:00'',
            distanceToDestination = Num 0.1 \<rparr>)"
proof (intro conjI)
  show "bfsSearch ''A'' {''B'', ''C''} [target ''C'' 0.1, target ''B'' 0.5] ''07:30:00'' 2 feed_two_targets =
     Inr (Some \<lparr> path =
            [\<lparr> leg_from = ''A'', leg_to = ''C'', departure = ''08:00:00'', arrival = ''08:20:00'',
                trip_id = ''T1'', route_id = Some ''R1'', headsign = Some ''H1'' \<rparr>],
            numTransfers = 0, finalStop = ''C'', finalTime = ''08:20:00'',
            distanceToDestination = Num 0.1 \<rparr>)"
    by (rule two_targets_search)
qed (simp add: args_two_targets_def run_eval compareTime_def total_seconds_def
      num_at_def Number_js_def is_digit_def digit_val_def num_lt_def)

lemma reach_target_Return:
  "(\<exists>r. reach_target cand st = Return r) \<longleftrightarrow> js_lt (distanceToDestination cand) (Num 0.35)"
  by (simp add: reach_target_def Let_def)

lemma reach_target_result:
  "reach_target cand st =
     (if js_lt (distanceToDestination cand) (Num 0.35)
      then Return (if js_lt (distanceToDestination cand) (bestDistance st) then Some cand
                   else bestRoute st)
      else Continue (if js_lt (distanceToDestination cand) (bestDistance st)
                     then st\<lparr> bestDistance := distanceToDestination cand, bestRoute := Some cand \<rparr>
                     else st))"
  by (simp add: reach_target_def Let_def)

text \<open>
  Claim C3, amended to what \<open>find_transit_bfs.js\<close> does. When the state taken off the
  queue stands at a target stop, or a connection that can be taken reaches one, the
  route is recorded as the best one if its target is strictly closer to the destination
  than the best so far, and the search returns at once if and only if that distance is
  strictly below 0.35 km, whatever the number of transfers; otherwise it goes on.
\<close>

theorem early_return_iff_within_350m:
  "(at_stop current \<in> targetStops args \<longrightarrow>
      (let d = getMinDistanceToTarget (targetStopsList args) (at_stop current);
           cand = \<lparr> path = path current, numTransfers = numTransfers current,
                    finalStop = at_stop current, finalTime = at_time current,
                    distanceToDestination = d \<rparr>
       in expand args current st =
            (if js_lt d (Num 0.35)
             then Return (if js_lt d (bestDistance st) then Some cand else bestRoute st)
             else Continue (if js_lt d (bestDistance st)
                            then st\<lparr> bestDistance := d, bestRoute := Some cand \<rparr> else st))))
   \<and> (\<not> compareTime (departure_time conn) (next_available_time current) < 0
        \<and> conn_stop_id conn \<in> targetStops args \<longrightarrow>
      (let d = getMinDistanceToTarget (targetStopsList args) (conn_stop_id conn);
           cand = \<lparr> path = path current @ [new_leg current conn],
                    numTransfers = (if is_transfer (path current) conn then numTransfers current + 1
                                    else numTransfers current),
                    finalStop = conn_stop_id conn, finalTime = arrival_time conn,
                    distanceToDestination = d \<rparr>
       in visit_connection args current conn st =
            (if js_lt d (Num 0.35)
             then Return (if js_lt d (bestDistance st) then Some cand else bestRoute st)
             else Continue (if js_lt d (bestDistance st)
                            then st\<lparr> bestDistance := d, bestRoute := Some cand \<rparr> else st))))"
  by (simp add: expand_def visit_connection_def reach_target_result Let_def)

theorem early_return_iff_within_350m_witness:
  "expand args_two_targets
     \<lparr> path = [], numTransfers = 0, at_stop = ''B'', at_time = ''08:10:00'', distanceToTarget = Num 0.5 \<rparr>
     \<lparr> queue = [], visited = {}, bestRoute = None, bestDistance = Infinity \<rparr>
   = Continue \<lparr> queue = [], visited = {},
       bestRoute = Some \<lparr> path = [], numTransfers = 0, finalStop = ''B'', finalTime = ''08:10:00'',
                          distanceToDestination = Num 0.5 \<rparr>,
       bestDistance = Num 0.5 \<rparr>
   \<and> visit_connection args_two_targets (start_item (targetStopsList args_two_targets) ''A'' ''07:30:00'')
     \<lparr> conn_stop_id = ''C'', arrival_time = ''08:20:00'', departure_time = ''08:00:00'',
       conn_trip_id = ''T1'', conn_route_id = Some ''R1'', conn_headsign = Some ''H1'' \<rparr>
     \<lparr> queue = [], visited = {(''A'', 0)}, bestRoute = None, bestDistance = Infinity \<rparr>
   = Return (Some \<lparr> path =
            [\<lparr> leg_from = ''A'', leg_to = ''C'', departure = ''08:00:00'', arrival = ''08:20:00'',
                trip_id = ''T1'', route_id = Some ''R1'', headsign = Some ''H1'' \<rparr>],
            numTransfers = 0, finalStop = ''C'', finalTime = ''08:20:00'',
            distanceToDestination = Num 0.1 \<rparr>)"
proof -
  let ?connC = "\<lparr> conn_stop_id = ''C'', arrival_time = ''08:20:00'', departure_time = ''08:00:00'',
         conn_trip_id = ''T1'', conn_route_id = Some ''R1'', conn_headsign = Some ''H1'' \<rparr>"
  note at_target = early_return_iff_within_350m [where args = args_two_targets and conn = ?connC
      and current = "\<lparr> path = [], numTransfers = 0, at_stop = ''B'', at_time = ''08:10:00'',
                       distanceToTarget = Num 0.5 \<rparr>"
      and st = "\<lparr> queue = [], visited = {}, bestRoute = None, bestDistance = Infinity \<rparr>",
      THEN conjunct1]
  note by_connection = early_return_iff_within_350m [where args = args_two_targets and conn = ?connC
      and current = "start_item (targetStopsList args_two_targets) ''A'' ''07:30:00''"
      and st = "\<lparr> queue = [], visited = {(''A'', 0)}, bestRoute = None, bestDistance = Infinity \<rparr>",
      THEN conjunct2]
  from at_target by_connection show ?thesis
    by (simp add: args_two_targets_def start_item_def getMinDistanceToTarget_def target_def
        is_transfer_def new_leg_def next_available_time_def compareTime_def total_seconds_def
        num_at_def Number_js_def is_digit_def digit_val_def num_lt_def Let_def)
qed

section \<open>The order of the frontier\<close>












section \<open>Evaluation of the combined search\<close>


section \<open>The comparison of the candidates\<close>

lemma js_lt_total: "\<not> js_lt a b \<Longrightarrow> \<not> js_lt b c \<Longrightarrow> \<not> js_lt a c"
  by (cases a; cases b; cases c) simp_all




section \<open>The fastest route\<close>

















section \<open>The candidates of the walk fallback\<close>



section \<open>The fastest route, on two walks\<close>













section \<open>The order of the frontier in each script\<close>
















section \<open>The order of the frontier, on an example\<close>












section \<open>The Connection Expander on a trip that passes a stop twice\<close>

lemmas lines_eval =
  tripStopMap_rows_def pushed_lines_def read_line_def line_parts_def column_def has_values_def
  stop_time_of_def parseInt10_def is_space_def is_digit_def digit_val_def Let_def

lemma loop_lines:
  "map line_parts (tl (stopTimeLines files_loop)) =
     [[''L'', ''08:00:00'', ''08:00:00'', ''B'', ''1''],
      [''L'', ''08:10:00'', ''08:10:00'', ''C'', ''2''],
      [''L'', ''08:20:00'', ''08:20:00'', ''B'', ''3''],
      [''L'', ''08:30:00'', ''08:30:00'', ''D'', ''4'']]"
  by (simp add: files_loop_def line_parts_def Let_def)

lemma loop_rows: "tripStopMap_rows files_loop = Some feed_loop"
  by (simp add: files_loop_def feed_loop_def row_def lines_eval)

lemma bare_rows:
  "tripStopMap_rows files_bare =
     Some \<lparr> validTripIds = {Some ''L''}, tripRouteMap = [''L'' \<mapsto> trip_entry ''L'' ''R'' ''Loop''],
            stopTimes = [] \<rparr>"
  by (simp add: files_bare_def files_loop_def lines_eval)

lemma loop_connections:
  "getDirectConnections ''B'' ''08:05:00'' feed_loop = Inr []"
  "getDirectConnections ''B'' ''07:30:00'' feed_loop =
     Inr [\<lparr> conn_stop_id = ''C'', arrival_time = ''08:10:00'', departure_time = ''08:00:00'',
            conn_trip_id = ''L'', conn_route_id = Some ''R'', conn_headsign = Some ''Loop'' \<rparr>,
          \<lparr> conn_stop_id = ''B'', arrival_time = ''08:20:00'', departure_time = ''08:00:00'',
            conn_trip_id = ''L'', conn_route_id = Some ''R'', conn_headsign = Some ''Loop'' \<rparr>,
          \<lparr> conn_stop_id = ''D'', arrival_time = ''08:30:00'', departure_time = ''08:00:00'',
            conn_trip_id = ''L'', conn_route_id = Some ''R'', conn_headsign = Some ''Loop'' \<rparr>]"
  by (simp_all add: feed_loop_def expander_eval)

lemma bare_connections:
  "map_option (getDirectConnections stopId afterTime) (tripStopMap_rows files_bare) = Some (Inr [])"
  by (simp add: bare_rows expander_eval)

text \<open>
  Claim C9 asks for one connection for every valid trip that leaves \<open>s\<close> strictly later
  than \<open>t\<close> and every stop after \<open>s\<close> on it. The lines of trip \<open>L\<close> give the rows of
  \<open>feed_loop\<close>; the trip leaves \<open>B\<close> at 08:20:00, later than 08:05:00, and reaches
  \<open>D\<close> after it, and the Connection Expander returns no connection from \<open>B\<close> after
  08:05:00. It looks only at the first stop-time of \<open>B\<close> on the trip, the one of
  08:00:00; after 07:30:00 it returns the three stops that follow that one.
\<close>

theorem second_departure_from_stop_missed:
  "tripStopMap_rows files_loop = Some feed_loop
   \<and> getDirectConnections ''B'' ''08:05:00'' feed_loop = Inr []
   \<and> row ''L'' ''B'' 3 ''08:20:00'' ''08:20:00'' \<in> set (valid_rows feed_loop)
   \<and> row ''L'' ''D'' 4 ''08:30:00'' ''08:30:00'' \<in> set (valid_rows feed_loop)
   \<and> compareTime ''08:20:00'' ''08:05:00'' = 1
   \<and> getDirectConnections ''B'' ''07:30:00'' feed_loop =
     Inr [\<lparr> conn_stop_id = ''C'', arrival_time = ''08:10:00'', departure_time = ''08:00:00'',
            conn_trip_id = ''L'', conn_route_id = Some ''R'', conn_headsign = Some ''Loop'' \<rparr>,
          \<lparr> conn_stop_id = ''B'', arrival_time = ''08:20:00'', departure_time = ''08:00:00'',
            conn_trip_id = ''L'', conn_route_id = Some ''R'', conn_headsign = Some ''Loop'' \<rparr>,
          \<lparr> conn_stop_id = ''D'', arrival_time = ''08:30:00'', departure_time = ''08:00:00'',
            conn_trip_id = ''L'', conn_route_id = Some ''R'', conn_headsign = Some ''Loop'' \<rparr>]"
proof (intro conjI)
  show "tripStopMap_rows files_loop = Some feed_loop" by (rule loop_rows)
  show "row ''L'' ''B'' 3 ''08:20:00'' ''08:20:00'' \<in> set (valid_rows feed_loop)"
    "row ''L'' ''D'' 4 ''08:30:00'' ''08:30:00'' \<in> set (valid_rows feed_loop)"
    by (simp_all add: valid_rows_def feed_loop_def row_def)
  show "compareTime ''08:20:00'' ''08:05:00'' = 1"
    by (simp add: compareTime_def total_seconds_def num_at_def Number_js_def is_digit_def
        digit_val_def num_lt_def)
qed (rule loop_connections)+

section \<open>The direct-trip finder\<close>
























end
